theory Spec2Isabelle
  imports
    Main
    "HOL-Library.Char_ord"
    "HOL-Library.List_Lexorder"
    "HOL-Library.Product_Lexorder"
    "HOL-Library.Multiset"
begin

section \<open>The data model (employee/models.py)\<close>

text \<open>
  \<^verbatim>\<open>hire_date = models.DateField()\<close>: the column holds a calendar date, kept here as
  (year, month, day).
\<close>

type_synonym date = "nat \<times> nat \<times> nat"

text \<open>
  \<^verbatim>\<open>class Employee(models.Model)\<close>: the five declared fields and the primary key that
  the framework adds to every model (\<^verbatim>\<open>id\<close> in the source; \<open>pk\<close> here, since \<open>id\<close> is the
  identity function of HOL). The URL patterns pass it as \<^verbatim>\<open><int:id>\<close>, a natural number.
\<close>

record employee =
  pk :: nat
  first_name :: string
  last_name :: string
  email :: string
  position :: string
  hire_date :: date

text \<open>
  The table \<^verbatim>\<open>employee_employee\<close>: its rows in insertion order, and the counter the
  automatic primary key is drawn from. No handler keeps any other state.
\<close>

record db =
  rows :: "employee list"
  next_id :: nat

definition empty_db :: db where
  "empty_db = \<lparr>rows = [], next_id = 1\<rparr>"

text \<open>
  What a handler can raise and does not catch: \<open>Http404\<close> from
  \<^verbatim>\<open>get_object_or_404\<close>, and the three failures of writing a row. \<open>ValidationError\<close>
  is the date field refusing a string that is no date, \<open>DataError\<close> a value longer than
  its column, \<open>IntegrityError\<close> a violated \<^verbatim>\<open>unique=True\<close>.
\<close>

datatype exn = Http404 | ValidationError | DataError | IntegrityError

subsection \<open>The date field\<close>

text \<open>
  A \<^verbatim>\<open>DateField\<close> converts the string it is given when the row is written. The format is
  the one models.py documents, \<^verbatim>\<open>YYYY-MM-DD\<close>: four digits, a dash, one or two digits, a
  dash, one or two digits, naming a day of the calendar. Only this documented form is
  modelled: depending on its version the framework also reads a date followed by one
  line feed, the form without dashes and week dates, which \<open>parse_date\<close> refuses. The
  theorems below use \<open>parse_date\<close> where it gives a date, and where it refuses strings
  without a dash (whitespace-only ones among them), which no version reads as a date.
\<close>

definition is_digit :: "char \<Rightarrow> bool" where
  "is_digit c \<longleftrightarrow> c \<in> set ''0123456789''"

definition digit_val :: "char \<Rightarrow> nat" where
  "digit_val c = of_char c - 48"

definition int_of_digits :: "string \<Rightarrow> nat" where
  "int_of_digits s = foldl (\<lambda>n c. 10 * n + digit_val c) 0 s"

fun split_dash :: "string \<Rightarrow> string list" where
  "split_dash [] = [[]]"
| "split_dash (c # cs) =
     (if c = CHR ''-'' then [] # split_dash cs
      else (case split_dash cs of [] \<Rightarrow> [[c]] | w # ws \<Rightarrow> (c # w) # ws))"

definition is_leap :: "nat \<Rightarrow> bool" where
  "is_leap y \<longleftrightarrow> y mod 4 = 0 \<and> (y mod 100 \<noteq> 0 \<or> y mod 400 = 0)"

definition days_in_month :: "nat \<Rightarrow> nat \<Rightarrow> nat" where
  "days_in_month y m =
     (if m = 2 then (if is_leap y then 29 else 28)
      else if m = 4 \<or> m = 6 \<or> m = 9 \<or> m = 11 then 30
      else 31)"

definition valid_ymd :: "nat \<Rightarrow> nat \<Rightarrow> nat \<Rightarrow> bool" where
  "valid_ymd y m d \<longleftrightarrow> 1 \<le> y \<and> 1 \<le> m \<and> m \<le> 12 \<and> 1 \<le> d \<and> d \<le> days_in_month y m"

definition parse_date :: "string \<Rightarrow> date option" where
  "parse_date s =
     (case split_dash s of
        [ys, ms, ds] \<Rightarrow>
          if length ys = 4 \<and> (length ms = 1 \<or> length ms = 2) \<and> (length ds = 1 \<or> length ds = 2)
             \<and> list_all is_digit ys \<and> list_all is_digit ms \<and> list_all is_digit ds
             \<and> valid_ymd (int_of_digits ys) (int_of_digits ms) (int_of_digits ds)
          then Some (int_of_digits ys, int_of_digits ms, int_of_digits ds)
          else None
      | _ \<Rightarrow> None)"

subsection \<open>The object manager\<close>

text \<open>
  \<^verbatim>\<open>class Meta: ordering = ['last_name', 'first_name']\<close>: every query set is read in
  this order, ascending. Strings compare character by character (the order of
  \<open>Char_ord\<close> lifted to lists), pairs compare on the first component first.
\<close>

definition ordering :: "employee \<Rightarrow> string \<times> string" where
  "ordering e = (last_name e, first_name e)"

definition objects_all :: "db \<Rightarrow> employee list" where
  "objects_all st = sort_key ordering (rows st)"

text \<open>\<^verbatim>\<open>get_object_or_404(Employee, id=id)\<close>: the row with this key, or \<open>Http404\<close>.\<close>

definition get_object_or_404 :: "db \<Rightarrow> nat \<Rightarrow> exn + employee" where
  "get_object_or_404 st i =
     (case find (\<lambda>e. pk e = i) (rows st) of
        None \<Rightarrow> Inl Http404
      | Some e \<Rightarrow> Inr e)"

text \<open>
  The declared column widths: \<^verbatim>\<open>max_length=30\<close> for both names, 50 for the position,
  and the 254 of an \<^verbatim>\<open>EmailField\<close>. Whether a longer value is refused depends on the
  database behind the framework (its default, SQLite, keeps it; others raise), and no
  settings file is part of the sources, so every operation that writes takes that as
  the parameter \<open>strict\<close>. The syntax of an email address is never checked on a write.
\<close>

definition within_max_length :: "string \<Rightarrow> string \<Rightarrow> string \<Rightarrow> string \<Rightarrow> bool" where
  "within_max_length fn ln em pos \<longleftrightarrow>
     length fn \<le> 30 \<and> length ln \<le> 30 \<and> length em \<le> 254 \<and> length pos \<le> 50"

text \<open>
  \<^verbatim>\<open>Employee.objects.create(first_name=..., ..., hire_date=...)\<close>: one INSERT. The date
  string is converted first; then the database checks the widths (when it does) and
  the uniqueness of the email. A refused write raises and leaves the rows as they
  were. The key counter is kept as well; a database that draws the key before it checks
  the row skips one key there, which no handler can observe but through later keys.
\<close>

definition objects_create ::
  "bool \<Rightarrow> db \<Rightarrow> string \<Rightarrow> string \<Rightarrow> string \<Rightarrow> string \<Rightarrow> string \<Rightarrow> exn + db" where
  "objects_create strict st fn ln em pos hdt =
     (case parse_date hdt of
        None \<Rightarrow> Inl ValidationError
      | Some d \<Rightarrow>
          if strict \<and> \<not> within_max_length fn ln em pos then Inl DataError
          else if em \<in> set (map email (rows st)) then Inl IntegrityError
          else Inr \<lparr>rows = rows st @
                       [\<lparr>pk = next_id st, first_name = fn, last_name = ln, email = em,
                         position = pos, hire_date = d\<rparr>],
                     next_id = Suc (next_id st)\<rparr>)"

text \<open>
  \<^verbatim>\<open>employee.save()\<close> on an object that was read from the table: one UPDATE of the row
  with the object's key, all five columns written. The email must not be the email of
  another row.
\<close>

definition save ::
  "bool \<Rightarrow> db \<Rightarrow> nat \<Rightarrow> string \<Rightarrow> string \<Rightarrow> string \<Rightarrow> string \<Rightarrow> string \<Rightarrow> exn + db" where
  "save strict st i fn ln em pos hdt =
     (case parse_date hdt of
        None \<Rightarrow> Inl ValidationError
      | Some d \<Rightarrow>
          if strict \<and> \<not> within_max_length fn ln em pos then Inl DataError
          else if list_ex (\<lambda>e. pk e \<noteq> i \<and> email e = em) (rows st) then Inl IntegrityError
          else Inr (st\<lparr>rows :=
                 map (\<lambda>e. if pk e = i
                           then \<lparr>pk = i, first_name = fn, last_name = ln, email = em,
                                 position = pos, hire_date = d\<rparr>
                           else e) (rows st)\<rparr>))"

text \<open>\<^verbatim>\<open>employee.delete()\<close>: one DELETE of the row with the object's key.\<close>

definition delete_row :: "db \<Rightarrow> nat \<Rightarrow> db" where
  "delete_row st i = st\<lparr>rows := filter (\<lambda>e. pk e \<noteq> i) (rows st)\<rparr>"

section \<open>The handlers (employee/views.py)\<close>

text \<open>
  A request, as far as the handlers read it: \<^verbatim>\<open>request.method\<close> and
  \<^verbatim>\<open>request.POST\<close>, whose \<^verbatim>\<open>get\<close> gives \<open>None\<close> for a key that was not sent.
\<close>

record http_request =
  http_method :: string
  POST :: "string \<rightharpoonup> string"

text \<open>
  What a handler returns: a rendered template with its context dictionary, or a
  redirect. The three contexts of the source are \<^verbatim>\<open>{'employees': ...}\<close>,
  \<^verbatim>\<open>{'employee': ...}\<close> and none.
\<close>

datatype page_context = No_context | Employees "employee list" | Employee employee

datatype response = Render string page_context | Redirect string

type_synonym outcome = "(exn + response) \<times> db"

text \<open>
  Python's truth value of \<^verbatim>\<open>request.POST.get(key)\<close>: \<open>None\<close> and the empty string
  are false, every other string is true.
\<close>

definition truthy :: "string option \<Rightarrow> bool" where
  "truthy v \<longleftrightarrow> (case v of None \<Rightarrow> False | Some s \<Rightarrow> s \<noteq> [])"

definition home :: "http_request \<Rightarrow> db \<Rightarrow> outcome" where
  "home request st = (Inr (Render ''home.html'' (Employees (objects_all st))), st)"

definition create_view :: "http_request \<Rightarrow> db \<Rightarrow> outcome" where
  "create_view request st = (Inr (Render ''create.html'' No_context), st)"

text \<open>
  In the branch that writes, all five values are strings (\<open>truthy\<close> holds of each), so
  \<open>the\<close> is only ever applied to \<open>Some s\<close>.
\<close>

definition create_employee :: "bool \<Rightarrow> http_request \<Rightarrow> db \<Rightarrow> outcome" where
  "create_employee strict request st =
     (if http_method request = ''POST'' then
        (let fn = POST request ''first_name'';
             ln = POST request ''last_name'';
             em = POST request ''email'';
             pos = POST request ''position'';
             hdt = POST request ''hire_date''
         in if truthy fn \<and> truthy ln \<and> truthy em \<and> truthy pos \<and> truthy hdt
            then (case objects_create strict st (the fn) (the ln) (the em) (the pos) (the hdt) of
                    Inl x \<Rightarrow> (Inl x, st)
                  | Inr st' \<Rightarrow> (Inr (Redirect ''/''), st'))
            else (Inr (Render ''create.html'' No_context), st))
      else (Inr (Render ''create.html'' No_context), st))"

definition update_view :: "http_request \<Rightarrow> nat \<Rightarrow> db \<Rightarrow> outcome" where
  "update_view request i st =
     (case get_object_or_404 st i of
        Inl x \<Rightarrow> (Inl x, st)
      | Inr e \<Rightarrow> (Inr (Render ''update.html'' (Employee e)), st))"

definition update_employee :: "bool \<Rightarrow> http_request \<Rightarrow> nat \<Rightarrow> db \<Rightarrow> outcome" where
  "update_employee strict request i st =
     (case get_object_or_404 st i of
        Inl x \<Rightarrow> (Inl x, st)
      | Inr e \<Rightarrow>
          if http_method request = ''POST'' then
            (let fn = POST request ''first_name'';
                 ln = POST request ''last_name'';
                 em = POST request ''email'';
                 pos = POST request ''position'';
                 hdt = POST request ''hire_date''
             in if truthy fn \<and> truthy ln \<and> truthy em \<and> truthy pos \<and> truthy hdt
                then (case save strict st (pk e) (the fn) (the ln) (the em) (the pos) (the hdt) of
                        Inl x \<Rightarrow> (Inl x, st)
                      | Inr st' \<Rightarrow> (Inr (Redirect ''/''), st'))
                else (Inr (Render ''update.html'' (Employee e)), st))
          else (Inr (Render ''update.html'' (Employee e)), st))"

definition delete :: "http_request \<Rightarrow> nat \<Rightarrow> db \<Rightarrow> outcome" where
  "delete request i st =
     (case get_object_or_404 st i of
        Inl x \<Rightarrow> (Inl x, st)
      | Inr e \<Rightarrow> (Inr (Redirect ''/''), delete_row st (pk e)))"

section \<open>The routes (employee/urls.py)\<close>

text \<open>The six URL patterns, each with the handler it names.\<close>

datatype route =
  Home_route | Create_route | Create_employee_route
  | Update_route nat | Update_employee_route nat | Delete_route nat

fun dispatch :: "bool \<Rightarrow> route \<Rightarrow> http_request \<Rightarrow> db \<Rightarrow> outcome" where
  "dispatch strict Home_route request st = home request st"
| "dispatch strict Create_route request st = create_view request st"
| "dispatch strict Create_employee_route request st = create_employee strict request st"
| "dispatch strict (Update_route i) request st = update_view request i st"
| "dispatch strict (Update_employee_route i) request st = update_employee strict request i st"
| "dispatch strict (Delete_route i) request st = delete request i st"

text \<open>The states of the table that requests can lead to, from the empty table.\<close>

inductive reachable :: "bool \<Rightarrow> db \<Rightarrow> bool" for strict :: bool where
  reachable_empty: "reachable strict empty_db"
| reachable_step:
    "reachable strict st \<Longrightarrow> reachable strict (snd (dispatch strict r request st))"

text \<open>
  What every table that requests can lead to satisfies: no email twice, no key twice,
  every key below the counter.
\<close>

definition table_ok :: "db \<Rightarrow> bool" where
  "table_ok st \<longleftrightarrow>
     distinct (map email (rows st)) \<and> distinct (map pk (rows st))
     \<and> list_all (\<lambda>e. pk e < next_id st) (rows st)"

section \<open>Example data\<close>

text \<open>
  The form of the two templates sends exactly the five fields. Ada Lovelace is the
  employee of the scenario in the specification; Bob Babbage is a second one.
\<close>

definition form :: "string \<Rightarrow> string \<Rightarrow> string \<Rightarrow> string \<Rightarrow> string \<Rightarrow> (string \<rightharpoonup> string)" where
  "form fn ln em pos hdt =
     [''first_name'' \<mapsto> fn, ''last_name'' \<mapsto> ln, ''email'' \<mapsto> em,
      ''position'' \<mapsto> pos, ''hire_date'' \<mapsto> hdt]"

definition ada :: employee where
  "ada = \<lparr>pk = 1, first_name = ''Ada'', last_name = ''Lovelace'', email = ''ada@x.com'',
          position = ''Engineer'', hire_date = (1975, 1, 1)\<rparr>"

definition bob :: employee where
  "bob = \<lparr>pk = 2, first_name = ''Bob'', last_name = ''Babbage'', email = ''bob@x.com'',
          position = ''Clerk'', hire_date = (1980, 2, 29)\<rparr>"

section \<open>Whitespace\<close>



section \<open>Lookups, truth values and dates\<close>

lemma get_object_or_404_absent:
  "i \<notin> pk ` set (rows st) \<Longrightarrow> get_object_or_404 st i = Inl Http404"
proof -
  assume "i \<notin> pk ` set (rows st)"
  then have "find (\<lambda>e. pk e = i) (rows st) = None"
    by (auto simp: find_None_iff)
  then show ?thesis by (simp add: get_object_or_404_def)
qed

lemma get_object_or_404_present:
  assumes "i \<in> pk ` set (rows st)"
  obtains e where "get_object_or_404 st i = Inr e" "e \<in> set (rows st)" "pk e = i"
proof -
  from assms have "find (\<lambda>e. pk e = i) (rows st) \<noteq> None"
    by (auto simp: find_None_iff)
  then obtain e where f: "find (\<lambda>e. pk e = i) (rows st) = Some e" by blast
  then have "e \<in> set (rows st)" "pk e = i"
    by (auto simp: find_Some_iff)
  with f that show thesis by (simp add: get_object_or_404_def)
qed

lemma get_object_or_404_Inr:
  "get_object_or_404 st i = Inr e \<Longrightarrow> e \<in> set (rows st) \<and> pk e = i"
  by (auto simp: get_object_or_404_def find_Some_iff split: option.splits)

lemma truthy_Some [simp]: "truthy (Some s) \<longleftrightarrow> s \<noteq> []"
  by (simp add: truthy_def)

lemma truthy_None [simp]: "\<not> truthy None"
  by (simp add: truthy_def)

lemma parse_date_Nil [simp]: "parse_date [] = None"
  by (simp add: parse_date_def)



lemma create_employee_rejected:
  assumes "http_method request \<noteq> ''POST'' \<or>
      \<not> (truthy (POST request ''first_name'') \<and> truthy (POST request ''last_name'')
         \<and> truthy (POST request ''email'') \<and> truthy (POST request ''position'')
         \<and> truthy (POST request ''hire_date''))"
  shows "create_employee strict request st = (Inr (Render ''create.html'' No_context), st)"
  using assms by (auto simp: create_employee_def Let_def)

lemma create_employee_posted:
  assumes "http_method request = ''POST''"
    and "POST request ''first_name'' = Some fn" and "fn \<noteq> []"
    and "POST request ''last_name'' = Some ln" and "ln \<noteq> []"
    and "POST request ''email'' = Some em" and "em \<noteq> []"
    and "POST request ''position'' = Some pos" and "pos \<noteq> []"
    and "POST request ''hire_date'' = Some hdt" and "hdt \<noteq> []"
  shows "create_employee strict request st =
     (case objects_create strict st fn ln em pos hdt of
        Inl x \<Rightarrow> (Inl x, st) | Inr st' \<Rightarrow> (Inr (Redirect ''/''), st'))"
  using assms by (simp add: create_employee_def Let_def)

lemma update_employee_rejected:
  assumes "get_object_or_404 st i = Inr e"
    and "http_method request \<noteq> ''POST'' \<or>
      \<not> (truthy (POST request ''first_name'') \<and> truthy (POST request ''last_name'')
         \<and> truthy (POST request ''email'') \<and> truthy (POST request ''position'')
         \<and> truthy (POST request ''hire_date''))"
  shows "update_employee strict request i st = (Inr (Render ''update.html'' (Employee e)), st)"
  using assms by (auto simp: update_employee_def Let_def)

lemma update_employee_posted:
  assumes "get_object_or_404 st i = Inr e"
    and "http_method request = ''POST''"
    and "POST request ''first_name'' = Some fn" and "fn \<noteq> []"
    and "POST request ''last_name'' = Some ln" and "ln \<noteq> []"
    and "POST request ''email'' = Some em" and "em \<noteq> []"
    and "POST request ''position'' = Some pos" and "pos \<noteq> []"
    and "POST request ''hire_date'' = Some hdt" and "hdt \<noteq> []"
  shows "update_employee strict request i st =
     (case save strict st i fn ln em pos hdt of
        Inl x \<Rightarrow> (Inl x, st) | Inr st' \<Rightarrow> (Inr (Redirect ''/''), st'))"
proof -
  from assms(1) have "pk e = i" by (simp add: get_object_or_404_Inr)
  with assms show ?thesis by (simp add: update_employee_def Let_def)
qed

lemma update_employee_absent:
  "i \<notin> pk ` set (rows st) \<Longrightarrow> update_employee strict request i st = (Inl Http404, st)"
  by (simp add: update_employee_def get_object_or_404_absent)

lemma update_view_absent:
  "i \<notin> pk ` set (rows st) \<Longrightarrow> update_view request i st = (Inl Http404, st)"
  by (simp add: update_view_def get_object_or_404_absent)

lemma delete_absent:
  "i \<notin> pk ` set (rows st) \<Longrightarrow> delete request i st = (Inl Http404, st)"
  by (simp add: delete_def get_object_or_404_absent)

lemma delete_present:
  assumes "i \<in> pk ` set (rows st)"
  shows "delete request i st = (Inr (Redirect ''/''), delete_row st i)"
proof -
  from assms obtain e where "get_object_or_404 st i = Inr e" "pk e = i"
    by (rule get_object_or_404_present)
  then show ?thesis by (simp add: delete_def)
qed

lemma pk_delete_row: "i \<notin> pk ` set (rows (delete_row st i))"
  by (auto simp: delete_row_def)

lemma set_objects_all [simp]: "set (objects_all st) = set (rows st)"
  by (simp add: objects_all_def)

lemma mset_objects_all: "mset (objects_all st) = mset (rows st)"
  by (simp add: objects_all_def)

lemma sorted_objects_all: "sorted (map ordering (objects_all st))"
  by (simp add: objects_all_def)

lemma ordering_le:
  "ordering a \<le> ordering b \<longleftrightarrow>
     last_name a < last_name b \<or> (last_name a = last_name b \<and> first_name a \<le> first_name b)"
  by (auto simp: ordering_def less_eq_prod_def)

lemma sorted_wrt_objects_all:
  "sorted_wrt (\<lambda>a b. last_name a < last_name b
        \<or> (last_name a = last_name b \<and> first_name a \<le> first_name b)) (objects_all st)"
proof -
  have "sorted_wrt (\<lambda>a b. ordering a \<le> ordering b) (objects_all st)"
    using sorted_objects_all [of st] by (simp add: sorted_map)
  then show ?thesis by (simp add: ordering_le)
qed

section \<open>Writes and the table invariant\<close>

lemma objects_create_ok:
  assumes "parse_date hdt = Some d"
    and "strict \<longrightarrow> within_max_length fn ln em pos"
    and "em \<notin> email ` set (rows st)"
  shows "objects_create strict st fn ln em pos hdt =
     Inr \<lparr>rows = rows st @ [\<lparr>pk = next_id st, first_name = fn, last_name = ln, email = em,
                              position = pos, hire_date = d\<rparr>],
          next_id = Suc (next_id st)\<rparr>"
  using assms by (auto simp: objects_create_def)

lemma objects_create_duplicate:
  assumes "em \<in> email ` set (rows st)"
  shows "objects_create strict st fn ln em pos hdt
     \<in> {Inl ValidationError, Inl DataError, Inl IntegrityError}"
  using assms by (auto simp: objects_create_def split: option.splits)

lemma objects_create_Inr:
  assumes "objects_create strict st fn ln em pos hdt = Inr st'"
  shows "\<exists>d. em \<notin> email ` set (rows st) \<and>
     st' = \<lparr>rows = rows st @ [\<lparr>pk = next_id st, first_name = fn, last_name = ln, email = em,
                              position = pos, hire_date = d\<rparr>],
          next_id = Suc (next_id st)\<rparr>"
  using assms by (auto simp: objects_create_def split: option.splits if_splits)

lemma save_ok:
  assumes "parse_date hdt = Some d"
    and "strict \<longrightarrow> within_max_length fn ln em pos"
    and "\<forall>e\<in>set (rows st). pk e \<noteq> i \<longrightarrow> email e \<noteq> em"
  shows "save strict st i fn ln em pos hdt =
     Inr (st\<lparr>rows := map (\<lambda>e. if pk e = i
                           then \<lparr>pk = i, first_name = fn, last_name = ln, email = em,
                                 position = pos, hire_date = d\<rparr>
                           else e) (rows st)\<rparr>)"
  using assms by (auto simp: save_def list_ex_iff)

lemma save_Inr:
  assumes "save strict st i fn ln em pos hdt = Inr st'"
  shows "\<exists>d. (\<forall>e\<in>set (rows st). pk e \<noteq> i \<longrightarrow> email e \<noteq> em) \<and>
     st' = st\<lparr>rows := map (\<lambda>e. if pk e = i
                           then \<lparr>pk = i, first_name = fn, last_name = ln, email = em,
                                 position = pos, hire_date = d\<rparr>
                           else e) (rows st)\<rparr>"
  using assms by (auto simp: save_def list_ex_iff split: option.splits if_splits)

lemma table_ok_empty: "table_ok empty_db"
  by (simp add: table_ok_def empty_db_def)

lemma map_update_other:
  "i \<notin> pk ` set xs \<Longrightarrow> map (\<lambda>e. if pk e = i then new else e) xs = xs"
  by (induction xs) auto

lemma distinct_email_update:
  assumes "distinct (map pk xs)" and "distinct (map email xs)"
    and "\<forall>e\<in>set xs. pk e \<noteq> i \<longrightarrow> email e \<noteq> email new"
  shows "distinct (map email (map (\<lambda>e. if pk e = i then new else e) xs))"
  using assms
proof (induction xs)
  case Nil
  then show ?case by simp
next
  case (Cons x xs)
  show ?case
  proof (cases "pk x = i")
    case True
    with Cons.prems(1) have "i \<notin> pk ` set xs" by auto
    then have same: "map (\<lambda>e. if pk e = i then new else e) xs = xs"
      by (rule map_update_other)
    have "email e \<noteq> email new" if "e \<in> set xs" for e
    proof -
      from that \<open>i \<notin> pk ` set xs\<close> have "pk e \<noteq> i" by auto
      with Cons.prems(3) that show ?thesis by simp
    qed
    then have "email new \<notin> email ` set xs" by force
    with Cons.prems(2) True same show ?thesis by simp
  next
    case False
    with Cons.prems(3) have ne: "email x \<noteq> email new" by simp
    from Cons.prems(2) have "email x \<notin> email ` set xs" by simp
    then have "email x \<noteq> email (if pk e = i then new else e)" if "e \<in> set xs" for e
      using ne that by (cases "pk e = i") auto
    then have a: "email x \<notin> set (map email (map (\<lambda>e. if pk e = i then new else e) xs))"
      by (auto simp del: if_split)
    have b: "distinct (map email (map (\<lambda>e. if pk e = i then new else e) xs))"
      using Cons by simp
    have c: "(if pk x = i then new else x) = x"
      using False by simp
    show ?thesis
      by (simp only: list.map distinct.simps a b c simp_thms)
  qed
qed

lemma pk_update:
  "pk new = i \<Longrightarrow> map pk (map (\<lambda>e. if pk e = i then new else e) xs) = map pk xs"
  by (induction xs) auto

lemma table_ok_create:
  assumes "table_ok st" and "objects_create strict st fn ln em pos hdt = Inr st'"
  shows "table_ok st'"
proof -
  from assms(2) obtain d where fresh: "em \<notin> email ` set (rows st)"
    and st': "st' = \<lparr>rows = rows st @ [\<lparr>pk = next_id st, first_name = fn, last_name = ln,
                 email = em, position = pos, hire_date = d\<rparr>], next_id = Suc (next_id st)\<rparr>"
    using objects_create_Inr by blast
  from assms(1) have below: "\<forall>e\<in>set (rows st). pk e < next_id st"
    by (simp add: table_ok_def list_all_iff)
  then have "next_id st \<notin> pk ` set (rows st)" by auto
  with assms(1) fresh below show ?thesis
    unfolding st' by (auto simp: table_ok_def list_all_iff less_Suc_eq)
qed

lemma table_ok_save:
  assumes "table_ok st" and "save strict st i fn ln em pos hdt = Inr st'"
  shows "table_ok st'"
proof -
  from assms(2) obtain d where other: "\<forall>e\<in>set (rows st). pk e \<noteq> i \<longrightarrow> email e \<noteq> em"
    and st': "st' = st\<lparr>rows := map (\<lambda>e. if pk e = i
                 then \<lparr>pk = i, first_name = fn, last_name = ln, email = em,
                       position = pos, hire_date = d\<rparr> else e) (rows st)\<rparr>"
    using save_Inr by blast
  define new where "new = \<lparr>pk = i, first_name = fn, last_name = ln, email = em,
                       position = pos, hire_date = d\<rparr>"
  have pks: "map pk (map (\<lambda>e. if pk e = i then new else e) (rows st)) = map pk (rows st)"
    by (rule pk_update) (simp add: new_def)
  have "distinct (map email (map (\<lambda>e. if pk e = i then new else e) (rows st)))"
    using assms(1) other by (intro distinct_email_update) (simp_all add: table_ok_def new_def)
  moreover have "distinct (map pk (map (\<lambda>e. if pk e = i then new else e) (rows st)))"
    using assms(1) by (simp only: pks) (simp add: table_ok_def)
  moreover have "list_all (\<lambda>e. pk e < next_id st) (map (\<lambda>e. if pk e = i then new else e) (rows st))"
  proof -
    from assms(1) have "\<forall>e\<in>set (rows st). pk e < next_id st"
      by (simp add: table_ok_def list_all_iff)
    then show ?thesis by (auto simp: list_all_iff new_def)
  qed
  ultimately show ?thesis
    unfolding st' new_def [symmetric] by (simp add: table_ok_def)
qed

lemma table_ok_delete_row: "table_ok st \<Longrightarrow> table_ok (delete_row st i)"
  by (auto simp: table_ok_def delete_row_def list_all_iff distinct_map_filter)

lemma table_ok_dispatch:
  assumes "table_ok st"
  shows "table_ok (snd (dispatch strict r request st))"
proof (cases r)
  case Home_route
  with assms show ?thesis by (simp add: home_def)
next
  case Create_route
  with assms show ?thesis by (simp add: create_view_def)
next
  case Create_employee_route
  with assms show ?thesis
    by (auto simp: create_employee_def Let_def table_ok_create split: sum.splits)
next
  case (Update_route i)
  with assms show ?thesis by (simp add: update_view_def split: sum.splits)
next
  case (Update_employee_route i)
  with assms show ?thesis
    by (auto simp: update_employee_def Let_def table_ok_save split: sum.splits)
next
  case (Delete_route i)
  with assms show ?thesis
    by (auto simp: delete_def table_ok_delete_row split: sum.splits)
qed

lemma reachable_table_ok: "reachable strict st \<Longrightarrow> table_ok st"
  by (induction rule: reachable.induct) (simp_all add: table_ok_empty table_ok_dispatch)

section \<open>Evaluating the handlers\<close>

lemmas date_simps =
  parse_date_def is_digit_def int_of_digits_def digit_val_def valid_ymd_def
  days_in_month_def is_leap_def

lemma form_simps [simp]:
  "form fn ln em pos hdt ''first_name'' = Some fn"
  "form fn ln em pos hdt ''last_name'' = Some ln"
  "form fn ln em pos hdt ''email'' = Some em"
  "form fn ln em pos hdt ''position'' = Some pos"
  "form fn ln em pos hdt ''hire_date'' = Some hdt"
  by (simp_all add: form_def)

lemma parse_date_1975: "parse_date ''1975-01-01'' = Some (1975, 1, 1)"
  by (simp add: date_simps)

lemma parse_date_1990: "parse_date ''1990-05-05'' = Some (1990, 5, 5)"
  by (simp add: date_simps)

lemma parse_date_tomorrow: "parse_date ''tomorrow'' = None"
  by (simp add: parse_date_def)

lemma truthyE:
  assumes "truthy v"
  obtains s where "v = Some s" and "s \<noteq> []"
  using assms by (cases v) simp_all



lemma find_updated:
  "i \<in> pk ` set xs \<Longrightarrow> pk new = i \<Longrightarrow>
   find (\<lambda>e. pk e = i) (map (\<lambda>e. if pk e = i then new else e) xs) = Some new"
  by (induction xs) auto

lemma set_updated:
  "i \<in> pk ` set xs \<Longrightarrow> new \<in> set (map (\<lambda>e. if pk e = i then new else e) xs)"
  by (induction xs) auto

lemma create_employee_ok:
  assumes "http_method request = ''POST''"
    and "POST request ''first_name'' = Some fn" and "fn \<noteq> []"
    and "POST request ''last_name'' = Some ln" and "ln \<noteq> []"
    and "POST request ''email'' = Some em" and "em \<noteq> []"
    and "POST request ''position'' = Some pos" and "pos \<noteq> []"
    and "POST request ''hire_date'' = Some hdt" and "parse_date hdt = Some d"
    and "strict \<longrightarrow> within_max_length fn ln em pos"
    and "em \<notin> email ` set (rows st)"
  shows "create_employee strict request st =
     (Inr (Redirect ''/''),
      \<lparr>rows = rows st @ [\<lparr>pk = next_id st, first_name = fn, last_name = ln, email = em,
                              position = pos, hire_date = d\<rparr>],
       next_id = Suc (next_id st)\<rparr>)"
proof -
  from assms(11) have "hdt \<noteq> []" by auto
  with assms(1-10)
  have "create_employee strict request st =
     (case objects_create strict st fn ln em pos hdt of
        Inl x \<Rightarrow> (Inl x, st) | Inr st' \<Rightarrow> (Inr (Redirect ''/''), st'))"
    by (rule create_employee_posted)
  also have "objects_create strict st fn ln em pos hdt =
     Inr \<lparr>rows = rows st @ [\<lparr>pk = next_id st, first_name = fn, last_name = ln, email = em,
                              position = pos, hire_date = d\<rparr>],
          next_id = Suc (next_id st)\<rparr>"
    using assms(11-13) by (rule objects_create_ok)
  finally show ?thesis by simp
qed

lemma update_employee_ok:
  assumes "i \<in> pk ` set (rows st)"
    and "http_method request = ''POST''"
    and "POST request ''first_name'' = Some fn" and "fn \<noteq> []"
    and "POST request ''last_name'' = Some ln" and "ln \<noteq> []"
    and "POST request ''email'' = Some em" and "em \<noteq> []"
    and "POST request ''position'' = Some pos" and "pos \<noteq> []"
    and "POST request ''hire_date'' = Some hdt" and "parse_date hdt = Some d"
    and "strict \<longrightarrow> within_max_length fn ln em pos"
    and "\<forall>e\<in>set (rows st). pk e \<noteq> i \<longrightarrow> email e \<noteq> em"
  shows "update_employee strict request i st =
     (Inr (Redirect ''/''),
      st\<lparr>rows := map (\<lambda>e. if pk e = i
                           then \<lparr>pk = i, first_name = fn, last_name = ln, email = em,
                                 position = pos, hire_date = d\<rparr>
                           else e) (rows st)\<rparr>)"
proof -
  from assms(1) obtain e where e: "get_object_or_404 st i = Inr e"
    by (rule get_object_or_404_present)
  from assms(12) have "hdt \<noteq> []" by auto
  with e assms(2-11)
  have "update_employee strict request i st =
     (case save strict st i fn ln em pos hdt of
        Inl x \<Rightarrow> (Inl x, st) | Inr st' \<Rightarrow> (Inr (Redirect ''/''), st'))"
    by (rule update_employee_posted)
  also have "save strict st i fn ln em pos hdt =
     Inr (st\<lparr>rows := map (\<lambda>e. if pk e = i
                           then \<lparr>pk = i, first_name = fn, last_name = ln, email = em,
                                 position = pos, hire_date = d\<rparr>
                           else e) (rows st)\<rparr>)"
    using assms(12-14) by (rule save_ok)
  finally show ?thesis by simp
qed

lemma create_employee_bad_date:
  assumes "http_method request = ''POST''"
    and "POST request ''first_name'' = Some fn" and "fn \<noteq> []"
    and "POST request ''last_name'' = Some ln" and "ln \<noteq> []"
    and "POST request ''email'' = Some em" and "em \<noteq> []"
    and "POST request ''position'' = Some pos" and "pos \<noteq> []"
    and "POST request ''hire_date'' = Some hdt" and "hdt \<noteq> []"
    and "parse_date hdt = None"
  shows "create_employee strict request st = (Inl ValidationError, st)"
proof -
  from assms(1-11)
  have "create_employee strict request st =
     (case objects_create strict st fn ln em pos hdt of
        Inl x \<Rightarrow> (Inl x, st) | Inr st' \<Rightarrow> (Inr (Redirect ''/''), st'))"
    by (rule create_employee_posted)
  with assms(12) show ?thesis by (simp add: objects_create_def)
qed



lemma create_employee_duplicate:
  assumes "http_method request = ''POST''"
    and "truthy (POST request ''first_name'')" and "truthy (POST request ''last_name'')"
    and "truthy (POST request ''position'')" and "truthy (POST request ''hire_date'')"
    and "POST request ''email'' = Some em" and "em \<noteq> []"
    and "em \<in> email ` set (rows st)"
  shows "create_employee strict request st
     \<in> {(Inl ValidationError, st), (Inl DataError, st), (Inl IntegrityError, st)}"
proof -
  from assms(2) obtain fn where fn: "POST request ''first_name'' = Some fn" "fn \<noteq> []"
    by (rule truthyE)
  from assms(3) obtain ln where ln: "POST request ''last_name'' = Some ln" "ln \<noteq> []"
    by (rule truthyE)
  from assms(4) obtain pos where pos: "POST request ''position'' = Some pos" "pos \<noteq> []"
    by (rule truthyE)
  from assms(5) obtain hdt where hdt: "POST request ''hire_date'' = Some hdt" "hdt \<noteq> []"
    by (rule truthyE)
  have "create_employee strict request st =
     (case objects_create strict st fn ln em pos hdt of
        Inl x \<Rightarrow> (Inl x, st) | Inr st' \<Rightarrow> (Inr (Redirect ''/''), st'))"
    using assms(1) fn ln assms(6,7) pos hdt by (rule create_employee_posted)
  moreover from assms(8)
  have "objects_create strict st fn ln em pos hdt
     \<in> {Inl ValidationError, Inl DataError, Inl IntegrityError}"
    by (rule objects_create_duplicate)
  ultimately show ?thesis by auto
qed

section \<open>The claims\<close>

text \<open>
  C1. As written, for every tuple of five non-empty values with a new email, the claim
  fails: a hire date that is no date is refused when the row is written (the
  counterexample after the witness). It holds for valid tuples: when the request is a
  POST, all five values are present and non-empty, the hire date is a date in the
  format \<^verbatim>\<open>YYYY-MM-DD\<close>, the texts fit their columns where the database enforces the
  widths, and no row has the email, then the create submission redirects to the
  listing and the table is the old table followed by exactly one row, which is new,
  carries the next key, the four texts as submitted and the date the string denotes;
  the listing that follows includes that row.
\<close>

theorem create_valid_inserts_row:
  assumes "http_method request = ''POST''"
    and "POST request ''first_name'' = Some fn" and "fn \<noteq> []"
    and "POST request ''last_name'' = Some ln" and "ln \<noteq> []"
    and "POST request ''email'' = Some em" and "em \<noteq> []"
    and "POST request ''position'' = Some pos" and "pos \<noteq> []"
    and "POST request ''hire_date'' = Some hdt" and "parse_date hdt = Some d"
    and "strict \<longrightarrow> within_max_length fn ln em pos"
    and "em \<notin> email ` set (rows st)"
  shows "let new = \<lparr>pk = next_id st, first_name = fn, last_name = ln, email = em,
                    position = pos, hire_date = d\<rparr>;
             st' = snd (create_employee strict request st)
         in fst (create_employee strict request st) = Inr (Redirect ''/'')
          \<and> rows st' = rows st @ [new]
          \<and> new \<notin> set (rows st)
          \<and> home request' st' = (Inr (Render ''home.html'' (Employees (objects_all st'))), st')
          \<and> new \<in> set (objects_all st')"
proof -
  have "create_employee strict request st =
     (Inr (Redirect ''/''),
      \<lparr>rows = rows st @ [\<lparr>pk = next_id st, first_name = fn, last_name = ln, email = em,
                              position = pos, hire_date = d\<rparr>],
       next_id = Suc (next_id st)\<rparr>)"
    using assms by (rule create_employee_ok)
  moreover have "\<lparr>pk = next_id st, first_name = fn, last_name = ln, email = em,
                   position = pos, hire_date = d\<rparr> \<notin> set (rows st)"
    using assms(13) by force
  ultimately show ?thesis by (simp add: Let_def home_def)
qed

theorem create_valid_inserts_row_witness:
  "http_method \<lparr>http_method = ''POST'',
       POST = form ''Ada'' ''Lovelace'' ''ada@x.com'' ''Engineer'' ''1975-01-01''\<rparr> = ''POST''
   \<and> parse_date ''1975-01-01'' = Some (1975, 1, 1)
   \<and> within_max_length ''Ada'' ''Lovelace'' ''ada@x.com'' ''Engineer''
   \<and> ''ada@x.com'' \<notin> email ` set (rows empty_db)
   \<and> fst (create_employee True
        \<lparr>http_method = ''POST'',
          POST = form ''Ada'' ''Lovelace'' ''ada@x.com'' ''Engineer'' ''1975-01-01''\<rparr> empty_db)
       = Inr (Redirect ''/'')
   \<and> rows (snd (create_employee True
        \<lparr>http_method = ''POST'',
          POST = form ''Ada'' ''Lovelace'' ''ada@x.com'' ''Engineer'' ''1975-01-01''\<rparr> empty_db))
       = [ada]
   \<and> ada \<in> set (objects_all (snd (create_employee True
        \<lparr>http_method = ''POST'',
          POST = form ''Ada'' ''Lovelace'' ''ada@x.com'' ''Engineer'' ''1975-01-01''\<rparr> empty_db)))"
proof -
  have fresh: "''ada@x.com'' \<notin> email ` set (rows empty_db)"
    by (simp add: empty_db_def)
  have width: "within_max_length ''Ada'' ''Lovelace'' ''ada@x.com'' ''Engineer''"
    by (simp add: within_max_length_def)
  have new: "\<lparr>pk = next_id empty_db, first_name = ''Ada'', last_name = ''Lovelace'',
      email = ''ada@x.com'', position = ''Engineer'', hire_date = (1975, 1, 1)\<rparr> = ada"
    by (simp add: ada_def empty_db_def)
  have "rows empty_db = []"
    by (simp add: empty_db_def)
  with fresh width parse_date_1975
    create_valid_inserts_row
      [where request = "\<lparr>http_method = ''POST'',
          POST = form ''Ada'' ''Lovelace'' ''ada@x.com'' ''Engineer'' ''1975-01-01''\<rparr>"
        and fn = "''Ada''" and ln = "''Lovelace''" and em = "''ada@x.com''"
        and pos = "''Engineer''" and hdt = "''1975-01-01''" and d = "(1975, 1, 1)"
        and strict = True and st = empty_db,
        unfolded new]
  show ?thesis by (simp add: Let_def)
qed

theorem create_nonempty_counterexample:
  "http_method \<lparr>http_method = ''POST'',
       POST = form ''Ada'' ''Lovelace'' ''ada@x.com'' ''Engineer'' ''tomorrow''\<rparr> = ''POST''
   \<and> form ''Ada'' ''Lovelace'' ''ada@x.com'' ''Engineer'' ''tomorrow'' ''first_name'' = Some ''Ada''
   \<and> form ''Ada'' ''Lovelace'' ''ada@x.com'' ''Engineer'' ''tomorrow'' ''last_name'' = Some ''Lovelace''
   \<and> form ''Ada'' ''Lovelace'' ''ada@x.com'' ''Engineer'' ''tomorrow'' ''email'' = Some ''ada@x.com''
   \<and> form ''Ada'' ''Lovelace'' ''ada@x.com'' ''Engineer'' ''tomorrow'' ''position'' = Some ''Engineer''
   \<and> form ''Ada'' ''Lovelace'' ''ada@x.com'' ''Engineer'' ''tomorrow'' ''hire_date'' = Some ''tomorrow''
   \<and> ''ada@x.com'' \<notin> email ` set (rows empty_db)
   \<and> create_employee False
        \<lparr>http_method = ''POST'',
          POST = form ''Ada'' ''Lovelace'' ''ada@x.com'' ''Engineer'' ''tomorrow''\<rparr> empty_db
       = (Inl ValidationError, empty_db)
   \<and> create_employee True
        \<lparr>http_method = ''POST'',
          POST = form ''Ada'' ''Lovelace'' ''ada@x.com'' ''Engineer'' ''tomorrow''\<rparr> empty_db
       = (Inl ValidationError, empty_db)"
proof -
  have "create_employee strict
        \<lparr>http_method = ''POST'',
          POST = form ''Ada'' ''Lovelace'' ''ada@x.com'' ''Engineer'' ''tomorrow''\<rparr> empty_db
       = (Inl ValidationError, empty_db)" for strict
    by (rule create_employee_bad_date [where fn = "''Ada''" and ln = "''Lovelace''"
          and em = "''ada@x.com''" and pos = "''Engineer''" and hdt = "''tomorrow''"])
       (simp_all add: parse_date_tomorrow)
  then show ?thesis by (simp add: empty_db_def)
qed

text \<open>
  C2. As written, for every existing identifier and every five non-empty values, the
  claim fails: an email that another row already has is refused when the row is
  written (the counterexample after the witness). It holds for valid values: when a row
  carries the identifier, the request is a POST, all five values are present and
  non-empty, the hire date is a date in the format \<^verbatim>\<open>YYYY-MM-DD\<close>, the texts fit
  their columns where the database enforces the widths, and no other row has the
  email, then the update submission redirects to the listing, the row with the
  identifier holds the five new values (every other row and the key counter are as
  before), and both the update form and the listing that follow show the new values.
\<close>

theorem update_valid_overwrites_record:
  assumes "i \<in> pk ` set (rows st)"
    and "http_method request = ''POST''"
    and "POST request ''first_name'' = Some fn" and "fn \<noteq> []"
    and "POST request ''last_name'' = Some ln" and "ln \<noteq> []"
    and "POST request ''email'' = Some em" and "em \<noteq> []"
    and "POST request ''position'' = Some pos" and "pos \<noteq> []"
    and "POST request ''hire_date'' = Some hdt" and "parse_date hdt = Some d"
    and "strict \<longrightarrow> within_max_length fn ln em pos"
    and "\<forall>e\<in>set (rows st). pk e \<noteq> i \<longrightarrow> email e \<noteq> em"
  shows "let new = \<lparr>pk = i, first_name = fn, last_name = ln, email = em,
                    position = pos, hire_date = d\<rparr>;
             st' = snd (update_employee strict request i st)
         in fst (update_employee strict request i st) = Inr (Redirect ''/'')
          \<and> rows st' = map (\<lambda>e. if pk e = i then new else e) (rows st)
          \<and> next_id st' = next_id st
          \<and> update_view request' i st' = (Inr (Render ''update.html'' (Employee new)), st')
          \<and> home request' st' = (Inr (Render ''home.html'' (Employees (objects_all st'))), st')
          \<and> new \<in> set (objects_all st')"
proof -
  define new where "new = \<lparr>pk = i, first_name = fn, last_name = ln, email = em,
                    position = pos, hire_date = d\<rparr>"
  define st' where "st' = st\<lparr>rows := map (\<lambda>e. if pk e = i then new else e) (rows st)\<rparr>"
  have run: "update_employee strict request i st = (Inr (Redirect ''/''), st')"
    unfolding st'_def new_def using assms by (rule update_employee_ok)
  have "pk new = i" by (simp add: new_def)
  with assms(1) have "find (\<lambda>e. pk e = i) (rows st') = Some new"
    by (simp add: st'_def find_updated)
  then have view: "update_view request' i st' = (Inr (Render ''update.html'' (Employee new)), st')"
    by (simp add: update_view_def get_object_or_404_def)
  have listed: "new \<in> set (objects_all st')"
    using assms(1) by (simp add: st'_def set_updated del: set_map)
  have "rows st' = map (\<lambda>e. if pk e = i then new else e) (rows st)" "next_id st' = next_id st"
    by (simp_all add: st'_def)
  with run view listed show ?thesis
    unfolding new_def [symmetric] by (simp add: Let_def home_def)
qed

theorem update_valid_overwrites_record_witness:
  "(1::nat) \<in> pk ` set (rows \<lparr>rows = [ada, bob], next_id = 3\<rparr>)
   \<and> http_method \<lparr>http_method = ''POST'',
       POST = form ''Ada'' ''Lovelace'' ''ada@x.com'' ''Senior Engineer'' ''1975-01-01''\<rparr> = ''POST''
   \<and> parse_date ''1975-01-01'' = Some (1975, 1, 1)
   \<and> within_max_length ''Ada'' ''Lovelace'' ''ada@x.com'' ''Senior Engineer''
   \<and> email bob \<noteq> ''ada@x.com''
   \<and> fst (update_employee True
        \<lparr>http_method = ''POST'',
          POST = form ''Ada'' ''Lovelace'' ''ada@x.com'' ''Senior Engineer'' ''1975-01-01''\<rparr>
        1 \<lparr>rows = [ada, bob], next_id = 3\<rparr>)
       = Inr (Redirect ''/'')
   \<and> rows (snd (update_employee True
        \<lparr>http_method = ''POST'',
          POST = form ''Ada'' ''Lovelace'' ''ada@x.com'' ''Senior Engineer'' ''1975-01-01''\<rparr>
        1 \<lparr>rows = [ada, bob], next_id = 3\<rparr>))
       = [ada\<lparr>position := ''Senior Engineer''\<rparr>, bob]"
proof -
  have present: "(1::nat) \<in> pk ` set (rows \<lparr>rows = [ada, bob], next_id = 3\<rparr>)"
    by (simp add: ada_def)
  have width: "within_max_length ''Ada'' ''Lovelace'' ''ada@x.com'' ''Senior Engineer''"
    by (simp add: within_max_length_def)
  have other: "\<forall>e\<in>set (rows \<lparr>rows = [ada, bob], next_id = 3\<rparr>).
      pk e \<noteq> 1 \<longrightarrow> email e \<noteq> ''ada@x.com''"
    by (simp add: ada_def bob_def)
  have "email bob \<noteq> ''ada@x.com''"
    by (simp add: bob_def)
  with present width parse_date_1975 other
    update_valid_overwrites_record
      [where i = 1 and st = "\<lparr>rows = [ada, bob], next_id = 3\<rparr>"
        and request = "\<lparr>http_method = ''POST'',
          POST = form ''Ada'' ''Lovelace'' ''ada@x.com'' ''Senior Engineer'' ''1975-01-01''\<rparr>"
        and fn = "''Ada''" and ln = "''Lovelace''" and em = "''ada@x.com''"
        and pos = "''Senior Engineer''" and hdt = "''1975-01-01''" and d = "(1975, 1, 1)"
        and strict = True]
  show ?thesis by (simp add: Let_def ada_def bob_def)
qed

theorem update_nonempty_counterexample:
  "(1::nat) \<in> pk ` set (rows \<lparr>rows = [ada, bob], next_id = 3\<rparr>)
   \<and> http_method \<lparr>http_method = ''POST'',
       POST = form ''Ada'' ''Lovelace'' ''bob@x.com'' ''Engineer'' ''1975-01-01''\<rparr> = ''POST''
   \<and> form ''Ada'' ''Lovelace'' ''bob@x.com'' ''Engineer'' ''1975-01-01'' ''first_name'' = Some ''Ada''
   \<and> form ''Ada'' ''Lovelace'' ''bob@x.com'' ''Engineer'' ''1975-01-01'' ''last_name'' = Some ''Lovelace''
   \<and> form ''Ada'' ''Lovelace'' ''bob@x.com'' ''Engineer'' ''1975-01-01'' ''email'' = Some ''bob@x.com''
   \<and> form ''Ada'' ''Lovelace'' ''bob@x.com'' ''Engineer'' ''1975-01-01'' ''position'' = Some ''Engineer''
   \<and> form ''Ada'' ''Lovelace'' ''bob@x.com'' ''Engineer'' ''1975-01-01'' ''hire_date'' = Some ''1975-01-01''
   \<and> update_employee False
        \<lparr>http_method = ''POST'',
          POST = form ''Ada'' ''Lovelace'' ''bob@x.com'' ''Engineer'' ''1975-01-01''\<rparr>
        1 \<lparr>rows = [ada, bob], next_id = 3\<rparr>
       = (Inl IntegrityError, \<lparr>rows = [ada, bob], next_id = 3\<rparr>)
   \<and> update_employee True
        \<lparr>http_method = ''POST'',
          POST = form ''Ada'' ''Lovelace'' ''bob@x.com'' ''Engineer'' ''1975-01-01''\<rparr>
        1 \<lparr>rows = [ada, bob], next_id = 3\<rparr>
       = (Inl IntegrityError, \<lparr>rows = [ada, bob], next_id = 3\<rparr>)"
proof -
  have found: "get_object_or_404 \<lparr>rows = [ada, bob], next_id = 3\<rparr> 1 = Inr ada"
    by (simp add: get_object_or_404_def ada_def)
  have refused: "save strict \<lparr>rows = [ada, bob], next_id = 3\<rparr> 1
      ''Ada'' ''Lovelace'' ''bob@x.com'' ''Engineer'' ''1975-01-01'' = Inl IntegrityError"
    for strict
    by (simp add: save_def parse_date_1975 within_max_length_def ada_def bob_def)
  have "update_employee strict
        \<lparr>http_method = ''POST'',
          POST = form ''Ada'' ''Lovelace'' ''bob@x.com'' ''Engineer'' ''1975-01-01''\<rparr>
        1 \<lparr>rows = [ada, bob], next_id = 3\<rparr>
       = (Inl IntegrityError, \<lparr>rows = [ada, bob], next_id = 3\<rparr>)" for strict
    using update_employee_posted [OF found, where fn = "''Ada''" and ln = "''Lovelace''"
          and em = "''bob@x.com''" and pos = "''Engineer''" and hdt = "''1975-01-01''"
          and strict = strict and request = "\<lparr>http_method = ''POST'',
          POST = form ''Ada'' ''Lovelace'' ''bob@x.com'' ''Engineer'' ''1975-01-01''\<rparr>"]
    by (simp add: refused del: One_nat_def)
  then show ?thesis by (simp add: ada_def)
qed

text \<open>
  C3. For an identifier that no row of the table carries, the update form, the update
  submission and the delete handler each raise \<open>Http404\<close> and leave the table
  unchanged, whatever the request holds.
\<close>

theorem absent_id_not_found:
  assumes "i \<notin> pk ` set (rows st)"
  shows "update_view request i st = (Inl Http404, st)
       \<and> update_employee strict request i st = (Inl Http404, st)
       \<and> delete request i st = (Inl Http404, st)"
  using assms by (simp add: update_view_absent update_employee_absent delete_absent)

theorem absent_id_not_found_witness:
  "(2::nat) \<notin> pk ` set (rows \<lparr>rows = [ada], next_id = 2\<rparr>)
   \<and> update_view \<lparr>http_method = ''GET'', POST = Map.empty\<rparr> 2 \<lparr>rows = [ada], next_id = 2\<rparr>
       = (Inl Http404, \<lparr>rows = [ada], next_id = 2\<rparr>)
   \<and> update_employee False
        \<lparr>http_method = ''POST'',
          POST = form ''Bob'' ''Babbage'' ''bob@x.com'' ''Clerk'' ''1980-02-29''\<rparr>
        2 \<lparr>rows = [ada], next_id = 2\<rparr>
       = (Inl Http404, \<lparr>rows = [ada], next_id = 2\<rparr>)
   \<and> delete \<lparr>http_method = ''GET'', POST = Map.empty\<rparr> 2 \<lparr>rows = [ada], next_id = 2\<rparr>
       = (Inl Http404, \<lparr>rows = [ada], next_id = 2\<rparr>)"
proof -
  have absent: "(2::nat) \<notin> pk ` set (rows \<lparr>rows = [ada], next_id = 2\<rparr>)"
    by (simp add: ada_def)
  from absent
    absent_id_not_found [OF absent,
      where request = "\<lparr>http_method = ''GET'', POST = Map.empty\<rparr>"]
    absent_id_not_found [OF absent,
      where request = "\<lparr>http_method = ''POST'',
          POST = form ''Bob'' ''Babbage'' ''bob@x.com'' ''Clerk'' ''1980-02-29''\<rparr>"
        and strict = False]
  show ?thesis by blast
qed

text \<open>
  C4. For an identifier that a row carries, the delete handler removes the rows with
  that identifier (and no other) and redirects to the listing. After that the listing
  holds no row with the identifier, and the update form, the update submission and a
  second delete of the same identifier each raise \<open>Http404\<close>.
\<close>

theorem delete_existing_then_not_found:
  assumes "i \<in> pk ` set (rows st)"
  shows "delete request i st = (Inr (Redirect ''/''), delete_row st i)
       \<and> rows (delete_row st i) = filter (\<lambda>e. pk e \<noteq> i) (rows st)
       \<and> home request' (delete_row st i)
           = (Inr (Render ''home.html'' (Employees (objects_all (delete_row st i)))),
              delete_row st i)
       \<and> i \<notin> pk ` set (objects_all (delete_row st i))
       \<and> update_view request' i (delete_row st i) = (Inl Http404, delete_row st i)
       \<and> update_employee strict request' i (delete_row st i) = (Inl Http404, delete_row st i)
       \<and> delete request' i (delete_row st i) = (Inl Http404, delete_row st i)"
proof -
  have gone: "i \<notin> pk ` set (rows (delete_row st i))"
    by (rule pk_delete_row)
  have "delete request i st = (Inr (Redirect ''/''), delete_row st i)"
    using assms by (rule delete_present)
  moreover have "rows (delete_row st i) = filter (\<lambda>e. pk e \<noteq> i) (rows st)"
    by (simp add: delete_row_def)
  moreover have "home request' (delete_row st i)
      = (Inr (Render ''home.html'' (Employees (objects_all (delete_row st i)))), delete_row st i)"
    by (simp add: home_def)
  moreover have "i \<notin> pk ` set (objects_all (delete_row st i))"
    using gone by simp
  moreover note update_view_absent [OF gone, of request']
    update_employee_absent [OF gone, of strict request']
    delete_absent [OF gone, of request']
  ultimately show ?thesis by blast
qed

theorem delete_existing_then_not_found_witness:
  "(1::nat) \<in> pk ` set (rows \<lparr>rows = [ada, bob], next_id = 3\<rparr>)
   \<and> delete \<lparr>http_method = ''GET'', POST = Map.empty\<rparr> 1 \<lparr>rows = [ada, bob], next_id = 3\<rparr>
       = (Inr (Redirect ''/''), \<lparr>rows = [bob], next_id = 3\<rparr>)
   \<and> home \<lparr>http_method = ''GET'', POST = Map.empty\<rparr> \<lparr>rows = [bob], next_id = 3\<rparr>
       = (Inr (Render ''home.html'' (Employees [bob])), \<lparr>rows = [bob], next_id = 3\<rparr>)
   \<and> delete \<lparr>http_method = ''GET'', POST = Map.empty\<rparr> 1 \<lparr>rows = [bob], next_id = 3\<rparr>
       = (Inl Http404, \<lparr>rows = [bob], next_id = 3\<rparr>)"
proof -
  have present: "(1::nat) \<in> pk ` set (rows \<lparr>rows = [ada, bob], next_id = 3\<rparr>)"
    by (simp add: ada_def)
  have after: "delete_row \<lparr>rows = [ada, bob], next_id = 3\<rparr> 1 = \<lparr>rows = [bob], next_id = 3\<rparr>"
    by (simp add: delete_row_def ada_def bob_def)
  have listing: "objects_all \<lparr>rows = [bob], next_id = 3\<rparr> = [bob]"
    by (simp add: objects_all_def)
  show ?thesis
    using present
      delete_existing_then_not_found [OF present,
        where request = "\<lparr>http_method = ''GET'', POST = Map.empty\<rparr>"
          and request' = "\<lparr>http_method = ''GET'', POST = Map.empty\<rparr>"
          and strict = False]
    unfolding after listing by blast
qed

text \<open>
  C5. A POST to the create submission in which at least one of the five fields is
  missing or empty inserts nothing: the table is unchanged, and the answer is
  \<^verbatim>\<open>create.html\<close> rendered with no context (a blank form, no message).
\<close>

theorem create_incomplete_rerenders_blank_form:
  assumes "http_method request = ''POST''"
    and "\<not> (truthy (POST request ''first_name'') \<and> truthy (POST request ''last_name'')
          \<and> truthy (POST request ''email'') \<and> truthy (POST request ''position'')
          \<and> truthy (POST request ''hire_date''))"
  shows "create_employee strict request st = (Inr (Render ''create.html'' No_context), st)"
  using assms(2) by (simp add: create_employee_rejected)

theorem create_incomplete_rerenders_blank_form_witness:
  "http_method \<lparr>http_method = ''POST'',
       POST = form ''Ada'' ''Lovelace'' '''' ''Engineer'' ''1975-01-01''\<rparr> = ''POST''
   \<and> \<not> truthy (POST \<lparr>http_method = ''POST'',
       POST = form ''Ada'' ''Lovelace'' '''' ''Engineer'' ''1975-01-01''\<rparr> ''email'')
   \<and> create_employee False
        \<lparr>http_method = ''POST'',
          POST = form ''Ada'' ''Lovelace'' '''' ''Engineer'' ''1975-01-01''\<rparr> empty_db
       = (Inr (Render ''create.html'' No_context), empty_db)
   \<and> \<not> truthy (POST \<lparr>http_method = ''POST'', POST = Map.empty\<rparr> ''first_name'')
   \<and> create_employee False \<lparr>http_method = ''POST'', POST = Map.empty\<rparr> empty_db
       = (Inr (Render ''create.html'' No_context), empty_db)"
  using create_incomplete_rerenders_blank_form
      [where request = "\<lparr>http_method = ''POST'',
          POST = form ''Ada'' ''Lovelace'' '''' ''Engineer'' ''1975-01-01''\<rparr>"
        and strict = False and st = empty_db]
    create_incomplete_rerenders_blank_form
      [where request = "\<lparr>http_method = ''POST'', POST = Map.empty\<rparr>"
        and strict = False and st = empty_db]
  by simp

text \<open>
  C6. For an identifier that a row carries, a POST to the update submission in which at
  least one of the five fields is missing or empty leaves the table unchanged and
  renders \<^verbatim>\<open>update.html\<close> with a row of the table that has this identifier, the same
  answer as the update form gives: the stored record, not the submitted values.
\<close>

theorem update_incomplete_keeps_record:
  assumes "i \<in> pk ` set (rows st)"
    and "http_method request = ''POST''"
    and "\<not> (truthy (POST request ''first_name'') \<and> truthy (POST request ''last_name'')
          \<and> truthy (POST request ''email'') \<and> truthy (POST request ''position'')
          \<and> truthy (POST request ''hire_date''))"
  shows "\<exists>e. e \<in> set (rows st) \<and> pk e = i
       \<and> update_view request i st = (Inr (Render ''update.html'' (Employee e)), st)
       \<and> update_employee strict request i st = (Inr (Render ''update.html'' (Employee e)), st)"
proof -
  from assms(1) obtain e where e: "get_object_or_404 st i = Inr e" "e \<in> set (rows st)" "pk e = i"
    by (rule get_object_or_404_present)
  from e(1) assms(3)
  have "update_employee strict request i st = (Inr (Render ''update.html'' (Employee e)), st)"
    by (simp add: update_employee_rejected)
  moreover from e(1)
  have "update_view request i st = (Inr (Render ''update.html'' (Employee e)), st)"
    by (simp add: update_view_def)
  ultimately show ?thesis using e(2,3) by blast
qed

theorem update_incomplete_keeps_record_witness:
  "(1::nat) \<in> pk ` set (rows \<lparr>rows = [ada], next_id = 2\<rparr>)
   \<and> http_method \<lparr>http_method = ''POST'',
       POST = form ''Grace'' ''Hopper'' ''grace@x.com'' '''' ''1990-05-05''\<rparr> = ''POST''
   \<and> \<not> truthy (POST \<lparr>http_method = ''POST'',
       POST = form ''Grace'' ''Hopper'' ''grace@x.com'' '''' ''1990-05-05''\<rparr> ''position'')
   \<and> update_employee False
        \<lparr>http_method = ''POST'',
          POST = form ''Grace'' ''Hopper'' ''grace@x.com'' '''' ''1990-05-05''\<rparr>
        1 \<lparr>rows = [ada], next_id = 2\<rparr>
       = (Inr (Render ''update.html'' (Employee ada)), \<lparr>rows = [ada], next_id = 2\<rparr>)"
  using update_incomplete_keeps_record
      [where i = 1 and st = "\<lparr>rows = [ada], next_id = 2\<rparr>" and strict = False
        and request = "\<lparr>http_method = ''POST'',
          POST = form ''Grace'' ''Hopper'' ''grace@x.com'' '''' ''1990-05-05''\<rparr>"]
  by (auto simp: ada_def)

text \<open>
  C7. In every table that requests can lead to from the empty table, no two rows have
  the same email. A create submission with five non-empty values whose email a row
  already has raises one of the three failures of a write, which the handler does not
  catch, and leaves the table unchanged.
\<close>

theorem emails_stay_unique:
  assumes "reachable strict st"
  shows "distinct (map email (rows st))
       \<and> (http_method request = ''POST''
            \<and> truthy (POST request ''first_name'') \<and> truthy (POST request ''last_name'')
            \<and> truthy (POST request ''position'') \<and> truthy (POST request ''hire_date'')
            \<and> POST request ''email'' = Some em \<and> em \<noteq> []
            \<and> em \<in> email ` set (rows st)
          \<longrightarrow> create_employee strict request st
              \<in> {(Inl ValidationError, st), (Inl DataError, st), (Inl IntegrityError, st)})"
proof -
  from assms have "table_ok st" by (rule reachable_table_ok)
  then have "distinct (map email (rows st))" by (simp add: table_ok_def)
  then show ?thesis using create_employee_duplicate [of request em st strict] by blast
qed

theorem emails_stay_unique_witness:
  "reachable False \<lparr>rows = [ada], next_id = 2\<rparr>
   \<and> distinct (map email (rows \<lparr>rows = [ada], next_id = 2\<rparr>))
   \<and> ''ada@x.com'' \<in> email ` set (rows \<lparr>rows = [ada], next_id = 2\<rparr>)
   \<and> create_employee False
        \<lparr>http_method = ''POST'',
          POST = form ''Augusta'' ''King'' ''ada@x.com'' ''Countess'' ''1990-05-05''\<rparr>
        \<lparr>rows = [ada], next_id = 2\<rparr>
       = (Inl IntegrityError, \<lparr>rows = [ada], next_id = 2\<rparr>)"
proof -
  have made: "create_employee False
       \<lparr>http_method = ''POST'',
         POST = form ''Ada'' ''Lovelace'' ''ada@x.com'' ''Engineer'' ''1975-01-01''\<rparr> empty_db
      = (Inr (Redirect ''/''), \<lparr>rows = [ada], next_id = 2\<rparr>)"
    using create_employee_ok [where fn = "''Ada''" and ln = "''Lovelace''"
          and em = "''ada@x.com''" and pos = "''Engineer''" and hdt = "''1975-01-01''"
          and d = "(1975, 1, 1)" and strict = False and st = empty_db
          and request = "\<lparr>http_method = ''POST'',
         POST = form ''Ada'' ''Lovelace'' ''ada@x.com'' ''Engineer'' ''1975-01-01''\<rparr>"]
    by (simp add: parse_date_1975 empty_db_def ada_def)
  have "reachable False (snd (dispatch False Create_employee_route
       \<lparr>http_method = ''POST'',
         POST = form ''Ada'' ''Lovelace'' ''ada@x.com'' ''Engineer'' ''1975-01-01''\<rparr> empty_db))"
    by (rule reachable_step) (rule reachable_empty)
  then have reach: "reachable False \<lparr>rows = [ada], next_id = 2\<rparr>"
    by (simp add: made)
  have dup: "''ada@x.com'' \<in> email ` set (rows \<lparr>rows = [ada], next_id = 2\<rparr>)"
    by (simp add: ada_def)
  have refused: "objects_create False \<lparr>rows = [ada], next_id = 2\<rparr>
      ''Augusta'' ''King'' ''ada@x.com'' ''Countess'' ''1990-05-05'' = Inl IntegrityError"
    by (simp add: objects_create_def parse_date_1990 ada_def)
  have run: "create_employee False
        \<lparr>http_method = ''POST'',
          POST = form ''Augusta'' ''King'' ''ada@x.com'' ''Countess'' ''1990-05-05''\<rparr>
        \<lparr>rows = [ada], next_id = 2\<rparr>
       = (Inl IntegrityError, \<lparr>rows = [ada], next_id = 2\<rparr>)"
    using create_employee_posted [where fn = "''Augusta''" and ln = "''King''"
          and em = "''ada@x.com''" and pos = "''Countess''" and hdt = "''1990-05-05''"
          and strict = False and st = "\<lparr>rows = [ada], next_id = 2\<rparr>"
          and request = "\<lparr>http_method = ''POST'',
          POST = form ''Augusta'' ''King'' ''ada@x.com'' ''Countess'' ''1990-05-05''\<rparr>"]
    by (simp add: refused)
  from reach dup run emails_stay_unique [OF reach]
  show ?thesis by blast
qed

text \<open>
  C8. For every state of the table, the listing handler renders \<^verbatim>\<open>home.html\<close> with
  every row of the table, each as often as the table holds it, in ascending order of
  the last name and, among equal last names, of the first name; the table is left as
  it was.
\<close>

theorem home_lists_every_row_in_order:
  "home request st = (Inr (Render ''home.html'' (Employees (objects_all st))), st)
   \<and> mset (objects_all st) = mset (rows st)
   \<and> sorted_wrt (\<lambda>a b. last_name a < last_name b
        \<or> (last_name a = last_name b \<and> first_name a \<le> first_name b)) (objects_all st)"
  by (simp add: home_def mset_objects_all sorted_wrt_objects_all)

text \<open>
  C9. A request whose method is not POST never writes: the create submission renders
  the blank form and leaves the table unchanged; the update submission leaves the
  table unchanged, raises \<open>Http404\<close> when no row carries the identifier and
  otherwise renders the form with the stored record.
\<close>

theorem not_post_writes_nothing:
  assumes "http_method request \<noteq> ''POST''"
  shows "create_employee strict request st = (Inr (Render ''create.html'' No_context), st)
       \<and> snd (update_employee strict request i st) = st
       \<and> (i \<notin> pk ` set (rows st) \<longrightarrow>
            update_employee strict request i st = (Inl Http404, st))
       \<and> (i \<in> pk ` set (rows st) \<longrightarrow>
            (\<exists>e. e \<in> set (rows st) \<and> pk e = i
               \<and> update_employee strict request i st
                   = (Inr (Render ''update.html'' (Employee e)), st)))"
proof -
  have c: "create_employee strict request st = (Inr (Render ''create.html'' No_context), st)"
    using assms by (simp add: create_employee_rejected)
  have absent: "update_employee strict request i st = (Inl Http404, st)"
    if "i \<notin> pk ` set (rows st)"
    using that by (rule update_employee_absent)
  have present: "\<exists>e. e \<in> set (rows st) \<and> pk e = i
      \<and> update_employee strict request i st = (Inr (Render ''update.html'' (Employee e)), st)"
    if "i \<in> pk ` set (rows st)"
  proof -
    from that obtain e where e: "get_object_or_404 st i = Inr e" "e \<in> set (rows st)" "pk e = i"
      by (rule get_object_or_404_present)
    from e(1) assms
    have "update_employee strict request i st = (Inr (Render ''update.html'' (Employee e)), st)"
      by (simp add: update_employee_rejected)
    with e(2,3) show ?thesis by blast
  qed
  have "snd (update_employee strict request i st) = st"
  proof (cases "i \<in> pk ` set (rows st)")
    case True
    from present [OF True] show ?thesis by auto
  next
    case False
    from absent [OF False] show ?thesis by simp
  qed
  with c absent present show ?thesis by blast
qed

theorem not_post_writes_nothing_witness:
  "http_method \<lparr>http_method = ''GET'',
       POST = form ''Grace'' ''Hopper'' ''grace@x.com'' ''Admiral'' ''1990-05-05''\<rparr> \<noteq> ''POST''
   \<and> create_employee False
        \<lparr>http_method = ''GET'',
          POST = form ''Grace'' ''Hopper'' ''grace@x.com'' ''Admiral'' ''1990-05-05''\<rparr>
        \<lparr>rows = [ada], next_id = 2\<rparr>
       = (Inr (Render ''create.html'' No_context), \<lparr>rows = [ada], next_id = 2\<rparr>)
   \<and> update_employee False
        \<lparr>http_method = ''GET'',
          POST = form ''Grace'' ''Hopper'' ''grace@x.com'' ''Admiral'' ''1990-05-05''\<rparr>
        1 \<lparr>rows = [ada], next_id = 2\<rparr>
       = (Inr (Render ''update.html'' (Employee ada)), \<lparr>rows = [ada], next_id = 2\<rparr>)
   \<and> update_employee False
        \<lparr>http_method = ''GET'',
          POST = form ''Grace'' ''Hopper'' ''grace@x.com'' ''Admiral'' ''1990-05-05''\<rparr>
        2 \<lparr>rows = [ada], next_id = 2\<rparr>
       = (Inl Http404, \<lparr>rows = [ada], next_id = 2\<rparr>)"
  using not_post_writes_nothing
      [where i = 1 and st = "\<lparr>rows = [ada], next_id = 2\<rparr>" and strict = False
        and request = "\<lparr>http_method = ''GET'',
          POST = form ''Grace'' ''Hopper'' ''grace@x.com'' ''Admiral'' ''1990-05-05''\<rparr>"]
    not_post_writes_nothing
      [where i = 2 and st = "\<lparr>rows = [ada], next_id = 2\<rparr>" and strict = False
        and request = "\<lparr>http_method = ''GET'',
          POST = form ''Grace'' ''Hopper'' ''grace@x.com'' ''Admiral'' ''1990-05-05''\<rparr>"]
  by (auto simp: ada_def)




end
